theory Spec2Isabelle
  imports Main
begin

section \<open>The CDP browser provider (src/browser-providers/cdp.ts)\<close>

text \<open>
  The provider is a class with four fields and four operations (constructor, \<open>start\<close>,
  \<open>close\<close>, \<open>getSession\<close>). Everything it does beyond reading and writing its own
  fields is a call into the browser-control library or into the console. Those calls
  are recorded, in order, in a trace of events; the library's answers are parameters
  of the model.
\<close>

subsection \<open>Values\<close>

text \<open>A \<open>Browser\<close> object of the library, identified by its reference.\<close>

type_synonym browser = nat

text \<open>
  What a \<open>throw\<close> can carry: an instance of \<open>Error\<close> with its \<open>message\<close>, or any
  other value, represented by what \<open>String(value)\<close> gives for it.
\<close>

datatype thrown = JsError string | JsOther string

text \<open>The result of \<open>getSession\<close>: \<open>null\<close> or a \<open>Browser\<close>.\<close>

datatype 'a or_null = Null | Obj 'a

subsection \<open>The outside world\<close>

text \<open>
  The options bag \<open>Omit<ConnectOverCDPOptions, "endpointURL">\<close> is a type of the
  library; the provider only passes it on, so it is the type parameter \<open>'o\<close>.
\<close>

datatype 'o event =
    ConsoleLog "string list"
  | ConsoleError "string list"
  | CallConnectOverCDP string "'o option"
  | CallContexts browser
  | CallClose browser

text \<open>
  The library. Each operation sees the events so far, so that two calls with the same
  arguments may answer differently. \<open>connectOverCDP\<close> rejects with a thrown value or
  resolves to a browser; \<open>contexts\<close> throws or gives the length of the array
  \<open>browser.contexts()\<close>; \<open>browser_close\<close> rejects with a thrown value or resolves.
  The console is taken to print and never to throw.
\<close>

record 'o playwright =
  connectOverCDP :: "'o event list \<Rightarrow> string \<Rightarrow> 'o option \<Rightarrow> thrown + browser"
  contexts :: "'o event list \<Rightarrow> browser \<Rightarrow> thrown + nat"
  browser_close :: "'o event list \<Rightarrow> browser \<Rightarrow> thrown option"

subsection \<open>Strings\<close>

text \<open>\<open>String.prototype.startsWith\<close> and \<open>String.prototype.includes\<close>.\<close>

definition startsWith :: "string \<Rightarrow> string \<Rightarrow> bool" where
  "startsWith s searchString = (take (length searchString) s = searchString)"

fun includes_str :: "string \<Rightarrow> string \<Rightarrow> bool" where
  "includes_str [] searchString = (searchString = [])"
| "includes_str (c # cs) searchString =
     (if startsWith (c # cs) searchString then True else includes_str cs searchString)"

text \<open>A number in a template literal: its decimal digits.\<close>

fun string_of_nat :: "nat \<Rightarrow> string" where
  "string_of_nat n =
     (if n < 10 then [char_of (48 + n)]
      else string_of_nat (n div 10) @ [char_of (48 + n mod 10)])"

declare string_of_nat.simps [simp del]

subsection \<open>Configuration and provider\<close>

text \<open>
  \<open>interface CDPBrowserConfig\<close>. \<open>None\<close> is a property that is absent
  (\<open>undefined\<close>); the type asks for \<open>wsEndpoint\<close>, but the constructor tests it.
\<close>

record 'o CDPBrowserConfig =
  cfg_wsEndpoint :: "string option"
  cfg_options :: "'o option"
  cfg_debug :: "bool option"

text \<open>The fields of \<open>class CDPBrowserProvider\<close>; \<open>session\<close> is \<open>Browser | undefined\<close>.\<close>

record 'o CDPBrowserProvider =
  wsEndpoint :: string
  options :: "'o option"
  session :: "browser option"
  debug :: bool

text \<open>The state an operation works on: the object and the trace of the outside world.\<close>

type_synonym 'o state = "'o CDPBrowserProvider \<times> 'o event list"

subsection \<open>Errors\<close>

text \<open>
  The three messages the provider throws. All are plain \<open>Error\<close> objects; the
  specification calls them configuration error, format error and connection error.
\<close>

definition configuration_error :: thrown where
  "configuration_error = JsError ''CDP wsEndpoint is required but was not provided''"

definition format_error :: "string \<Rightarrow> thrown" where
  "format_error ep =
     JsError (''Invalid CDP WebSocket endpoint format: '' @ ep @
              ''. Must start with ws:// or wss://'')"

definition connection_error :: "string \<Rightarrow> string \<Rightarrow> thrown" where
  "connection_error ep errorMessage =
     JsError (''Failed to connect to CDP WebSocket endpoint: '' @ ep @ ''. '' @ errorMessage)"

text \<open>\<open>error instanceof Error ? error.message : String(error)\<close>.\<close>

fun error_message :: "thrown \<Rightarrow> string" where
  "error_message (JsError m) = m"
| "error_message (JsOther s) = s"

subsection \<open>The constructor\<close>

text \<open>
  Modelled from the spec: the base class \<open>BrowserProvider\<close>
  (\<open>@/types/browser-providers/types\<close>) is not among the sources. Section 4.1 of the
  specification says of construction "Pure validation; no I/O", so \<open>super()\<close> leaves
  the trace as it is.
\<close>

definition BrowserProvider_super :: "'o event list \<Rightarrow> 'o event list" where
  "BrowserProvider_super tr = tr"

text \<open>The default parameter \<open>{ wsEndpoint: "" }\<close>.\<close>

definition default_config :: "'o CDPBrowserConfig" where
  "default_config = \<lparr>cfg_wsEndpoint = Some [], cfg_options = None, cfg_debug = None\<rparr>"

text \<open>
  \<open>constructor(config = { wsEndpoint: "" })\<close>: the argument is \<open>None\<close> when the
  caller gives none. \<open>!config.wsEndpoint\<close> holds for \<open>undefined\<close> and for the empty
  string. A new object has no \<open>session\<close>.
\<close>

definition constructor ::
  "'o CDPBrowserConfig option \<Rightarrow> 'o event list \<Rightarrow> (thrown + 'o CDPBrowserProvider) \<times> 'o event list"
where
  "constructor arg tr =
     (let config = (case arg of None \<Rightarrow> default_config | Some c \<Rightarrow> c);
          tr1 = BrowserProvider_super tr
      in case cfg_wsEndpoint config of
           None \<Rightarrow> (Inl configuration_error, tr1)
         | Some ep \<Rightarrow>
             if ep = [] then
               (Inl configuration_error, tr1)
             else
               (Inr \<lparr>wsEndpoint = ep,
                     options = cfg_options config,
                     session = None,
                     debug = (case cfg_debug config of None \<Rightarrow> False | Some b \<Rightarrow> b)\<rparr>,
                tr1))"

subsection \<open>start\<close>

text \<open>
  Lines 27 to 29: the debug line at the entry of \<open>start\<close>. The first argument is the
  string with a leading line feed.
\<close>

definition log_connecting :: "'o CDPBrowserProvider \<Rightarrow> 'o event list \<Rightarrow> 'o event list" where
  "log_connecting this tr =
     (if debug this
      then tr @ [ConsoleLog [CHR 0x0A # ''Connecting to CDP WebSocket endpoint:'', wsEndpoint this]]
      else tr)"

text \<open>
  The trace at the moment \<open>browser.contexts()\<close> is called (line 46, debug on): the
  trace after the entry line, the connect call and the line of line 44.
\<close>

definition log_connected :: "'o CDPBrowserProvider \<Rightarrow> 'o event list \<Rightarrow> 'o event list" where
  "log_connected this tr1 =
     tr1 @ [CallConnectOverCDP (wsEndpoint this) (options this),
            ConsoleLog [''Successfully connected to CDP browser'' @ [CHR 0x0A]]]"

text \<open>
  Lines 51 to 59, the one \<open>catch\<close> of \<open>start\<close>: it takes the message of whatever
  was thrown inside the \<open>try\<close>, prints three lines when debugging, and throws the
  connection error. It assigns no field.
\<close>

definition catch_connect ::
  "'o CDPBrowserProvider \<Rightarrow> thrown \<Rightarrow> 'o event list \<Rightarrow> (thrown + browser) \<times> 'o state"
where
  "catch_connect this error tr =
     (let errorMessage = error_message error;
          tr' = (if debug this
                 then tr @
                   [ConsoleError [''Failed to connect to CDP browser:'', errorMessage],
                    ConsoleError [''Make sure Chrome/Chromium is running with --remote-debugging-port flag''],
                    ConsoleError [''Example: chrome --remote-debugging-port=9222 --remote-debugging-address=0.0.0.0'']]
                 else tr)
      in (Inl (connection_error (wsEndpoint this) errorMessage), this, tr'))"

text \<open>
  \<open>async start()\<close>, awaited to its end. The order of the events is the order of the
  statements: the debug line, the format check, the one call of \<open>connectOverCDP\<close>
  with \<open>endpointURL\<close> and the options spread into it, the assignment of \<open>session\<close>,
  the debug lines. The type of the options leaves out \<open>endpointURL\<close>, so the spread
  cannot replace the endpoint. The value returned is \<open>this.session\<close>, read back right
  after the assignment.

  The \<open>try\<close> spans lines 37 to 50. The assignment of line 41 comes before the debug
  block of lines 43 to 48, so when \<open>browser.contexts()\<close> throws there, the \<open>catch\<close>
  runs with the session already stored.
\<close>

definition start ::
  "'o playwright \<Rightarrow> 'o state \<Rightarrow> (thrown + browser) \<times> 'o state"
where
  "start lib s =
     (case s of (this, tr) \<Rightarrow>
        let tr1 = log_connecting this tr in
        if \<not> startsWith (wsEndpoint this) ''ws://'' \<and> \<not> startsWith (wsEndpoint this) ''wss://''
        then (Inl (format_error (wsEndpoint this)), this, tr1)
        else
          let tr2 = tr1 @ [CallConnectOverCDP (wsEndpoint this) (options this)] in
          (case connectOverCDP lib tr1 (wsEndpoint this) (options this) of
             Inr browser \<Rightarrow>
               let this2 = this\<lparr>session := Some browser\<rparr> in
               if debug this then
                 let tr3 = log_connected this tr1 in
                 (case contexts lib tr3 browser of
                    Inr n \<Rightarrow>
                      (Inr browser, this2,
                       tr3 @ [CallContexts browser,
                              ConsoleLog [''Connected browser has '' @ string_of_nat n @
                                          '' context(s)'']])
                  | Inl error \<Rightarrow> catch_connect this2 error (tr3 @ [CallContexts browser]))
               else (Inr browser, this2, tr2)
           | Inl error \<Rightarrow> catch_connect this error tr2))"

subsection \<open>close and getSession\<close>

text \<open>Lines 63 to 65: the debug line at the entry of \<open>close\<close>.\<close>

definition log_closing :: "'o CDPBrowserProvider \<Rightarrow> 'o event list \<Rightarrow> 'o event list" where
  "log_closing this tr =
     (if debug this \<and> session this \<noteq> None
      then tr @ [ConsoleLog [''Closing CDP browser connection'']]
      else tr)"

text \<open>
  \<open>async close()\<close>: \<open>await this.session?.close()\<close> calls the library only when a
  session is stored, and nothing catches what that call throws. No field is assigned.
\<close>

definition close :: "'o playwright \<Rightarrow> 'o state \<Rightarrow> (thrown + unit) \<times> 'o state" where
  "close lib s =
     (case s of (this, tr) \<Rightarrow>
        let tr1 = log_closing this tr
        in case session this of
             None \<Rightarrow> (Inr (), this, tr1)
           | Some b \<Rightarrow>
               (case browser_close lib tr1 b of
                  None \<Rightarrow> (Inr (), this, tr1 @ [CallClose b])
                | Some e \<Rightarrow> (Inl e, this, tr1 @ [CallClose b])))"

text \<open>
  \<open>getSession()\<close>: synchronous, reads one field. A \<open>Browser\<close> is an object, so
  \<open>!this.session\<close> holds exactly when the field is \<open>undefined\<close>. Like every call it
  either throws or returns; its body has no \<open>throw\<close> and calls nothing.
\<close>

definition getSession :: "'o CDPBrowserProvider \<Rightarrow> thrown + browser or_null" where
  "getSession this = (case session this of None \<Rightarrow> Inr Null | Some b \<Rightarrow> Inr (Obj b))"

text \<open>The calls of \<open>connectOverCDP\<close> and of \<open>Browser.close\<close> in a trace.\<close>

fun is_connect :: "'o event \<Rightarrow> bool" where
  "is_connect (CallConnectOverCDP ep opts) = True"
| "is_connect _ = False"

fun is_close :: "'o event \<Rightarrow> bool" where
  "is_close (CallClose b) = True"
| "is_close _ = False"

definition connect_calls :: "'o event list \<Rightarrow> 'o event list" where
  "connect_calls tr = filter is_connect tr"

definition close_calls :: "'o event list \<Rightarrow> 'o event list" where
  "close_calls tr = filter is_close tr"

subsection \<open>Sequences of calls\<close>

text \<open>
  What a caller can do with a provider once it is constructed: any sequence of the
  three operations. \<open>perform\<close> gives the state after one call (a call that throws
  leaves the state it reached), \<open>started\<close> says that the call is a \<open>start\<close> that
  returns, and \<open>no_successful_start\<close> that no call of a sequence is one.
  \<open>connected\<close> says that the call is a \<open>start\<close> whose connect call is made and
  resolves, whether or not the \<open>start\<close> then returns, and \<open>no_connected_start\<close> that
  no call of a sequence is one.
\<close>

datatype operation = Start | Close | GetSession




fun connected :: "'o playwright \<Rightarrow> operation \<Rightarrow> 'o state \<Rightarrow> bool" where
  "connected lib Start s =
     (case s of (this, tr) \<Rightarrow>
        if \<not> startsWith (wsEndpoint this) ''ws://'' \<and> \<not> startsWith (wsEndpoint this) ''wss://''
        then False
        else (case connectOverCDP lib (log_connecting this tr) (wsEndpoint this) (options this) of
                Inl e \<Rightarrow> False
              | Inr b \<Rightarrow> True))"
| "connected lib Close s = False"
| "connected lib GetSession s = False"



subsection \<open>A concrete library and concrete configurations\<close>

text \<open>
  A browser listens on \<open>ws://localhost:9222/devtools/browser\<close> and accepts two
  connections, answering with the browsers 100 and 101; every other connection attempt
  is refused. Browser 100 closes cleanly, closing any other browser fails. The
  configurations are those of the example scripts, with the debug flag on.
\<close>

definition example_endpoint :: string where
  "example_endpoint = ''ws://localhost:9222/devtools/browser''"

definition example_lib :: "(string \<times> nat) list playwright" where
  "example_lib =
     \<lparr>connectOverCDP = (\<lambda>hist ep opts.
        if ep = example_endpoint \<and> length (connect_calls hist) < 2
        then Inr (100 + length (connect_calls hist))
        else Inl (JsError ''connect ECONNREFUSED'')),
      contexts = (\<lambda>hist b. Inr 1),
      browser_close = (\<lambda>hist b. if b = 100 then None else Some (JsError ''Target closed''))\<rparr>"

text \<open>
  A second library: the browser at the example endpoint accepts the connection as
  browser 7 and is gone right after, so that \<open>contexts\<close> and the close of the browser
  both throw; a connection to any other endpoint is rejected with a string, not an
  \<open>Error\<close>.
\<close>

definition flaky_lib :: "(string \<times> nat) list playwright" where
  "flaky_lib =
     \<lparr>connectOverCDP = (\<lambda>hist ep opts.
        if ep = example_endpoint then Inr 7 else Inl (JsOther ''timeout'')),
      contexts = (\<lambda>hist b. Inl (JsError ''Target closed'')),
      browser_close = (\<lambda>hist b. Some (JsError ''Target closed''))\<rparr>"

definition example_config :: "(string \<times> nat) list CDPBrowserConfig" where
  "example_config =
     \<lparr>cfg_wsEndpoint = Some example_endpoint,
      cfg_options = Some [(''timeout'', 10000)],
      cfg_debug = Some True\<rparr>"

definition example_provider :: "(string \<times> nat) list CDPBrowserProvider" where
  "example_provider =
     \<lparr>wsEndpoint = example_endpoint,
      options = Some [(''timeout'', 10000)],
      session = None,
      debug = True\<rparr>"

text \<open>The same provider with an endpoint of another scheme, and with one nobody listens on.\<close>

definition http_provider :: "(string \<times> nat) list CDPBrowserProvider" where
  "http_provider = example_provider\<lparr>wsEndpoint := ''http://localhost:9222''\<rparr>"

definition unreachable_provider :: "(string \<times> nat) list CDPBrowserProvider" where
  "unreachable_provider = example_provider\<lparr>wsEndpoint := ''wss://nowhere.invalid:9222''\<rparr>"

definition unreachable_config :: "(string \<times> nat) list CDPBrowserConfig" where
  "unreachable_config = example_config\<lparr>cfg_wsEndpoint := Some ''wss://nowhere.invalid:9222''\<rparr>"

text \<open>The states after one and after two calls of \<open>start\<close> against that library.\<close>

definition example_state_1 :: "(string \<times> nat) list state" where
  "example_state_1 = snd (start example_lib (example_provider, []))"

definition example_state_2 :: "(string \<times> nat) list state" where
  "example_state_2 = snd (start example_lib example_state_1)"

section \<open>Properties\<close>

subsection \<open>Strings and traces\<close>

lemma startsWith_append: "startsWith (p @ s) p"
  by (simp add: startsWith_def)

lemma includes_str_prefix: "includes_str (sub @ b) sub"
proof (cases "sub @ b")
  case Nil
  then show ?thesis by simp
next
  case (Cons c cs)
  have "startsWith (sub @ b) sub" by (rule startsWith_append)
  with Cons show ?thesis by simp
qed

lemma includes_str_middle: "includes_str (a @ sub @ b) sub"
proof (induction a)
  case Nil
  show ?case by (simp add: includes_str_prefix)
next
  case (Cons x a)
  then show ?case by simp
qed

lemma connect_calls_Nil: "connect_calls [] = []"
  by (simp add: connect_calls_def)

lemma connect_calls_Cons:
  "connect_calls (e # es) = (if is_connect e then e # connect_calls es else connect_calls es)"
  by (simp add: connect_calls_def)

lemma close_calls_Nil: "close_calls [] = []"
  by (simp add: close_calls_def)

lemma close_calls_Cons:
  "close_calls (e # es) = (if is_close e then e # close_calls es else close_calls es)"
  by (simp add: close_calls_def)

lemma connect_calls_append: "connect_calls (xs @ ys) = connect_calls xs @ connect_calls ys"
  by (simp add: connect_calls_def)

lemma close_calls_append: "close_calls (xs @ ys) = close_calls xs @ close_calls ys"
  by (simp add: close_calls_def)

lemma connect_calls_log_connecting: "connect_calls (log_connecting this tr) = connect_calls tr"
  by (simp add: log_connecting_def connect_calls_def)

lemma close_calls_log_closing: "close_calls (log_closing this tr) = close_calls tr"
  by (simp add: log_closing_def close_calls_def)

subsection \<open>The outcomes of \<open>start\<close> and \<open>close\<close>\<close>

text \<open>
  \<open>start\<close> has four outcomes: the format error; a connection that is rejected; a
  connection that resolves, followed by a debug block that goes through (or is
  skipped); and a connection that resolves, followed by a debug block that throws. In
  each, the provider and the calls of \<open>connectOverCDP\<close> in the trace are known.
\<close>

lemma start_format:
  assumes "\<not> startsWith (wsEndpoint this) ''ws://''" and "\<not> startsWith (wsEndpoint this) ''wss://''"
  shows "start lib (this, tr) = (Inl (format_error (wsEndpoint this)), this, log_connecting this tr)"
  using assms by (simp add: start_def)

lemma connect_calls_log_connected:
  "connect_calls (log_connected this tr1) =
     connect_calls tr1 @ [CallConnectOverCDP (wsEndpoint this) (options this)]"
  by (simp add: log_connected_def connect_calls_append connect_calls_Nil connect_calls_Cons)

lemma catch_connect_parts:
  "fst (catch_connect this e tr) = Inl (connection_error (wsEndpoint this) (error_message e))"
  "fst (snd (catch_connect this e tr)) = this"
  "connect_calls (snd (snd (catch_connect this e tr))) = connect_calls tr"
  by (simp_all add: catch_connect_def Let_def connect_calls_append connect_calls_Nil
      connect_calls_Cons)

lemma start_connected:
  assumes "startsWith (wsEndpoint this) ''ws://'' \<or> startsWith (wsEndpoint this) ''wss://''"
    and "connectOverCDP lib (log_connecting this tr) (wsEndpoint this) (options this) = Inr b"
  shows "fst (snd (start lib (this, tr))) = this\<lparr>session := Some b\<rparr>"
    and "connect_calls (snd (snd (start lib (this, tr)))) =
           connect_calls tr @ [CallConnectOverCDP (wsEndpoint this) (options this)]"
  using assms
  by (auto simp: start_def Let_def catch_connect_parts connect_calls_append
      connect_calls_log_connecting connect_calls_log_connected connect_calls_Nil
      connect_calls_Cons split: sum.splits)

lemma start_resolved:
  assumes "startsWith (wsEndpoint this) ''ws://'' \<or> startsWith (wsEndpoint this) ''wss://''"
    and "connectOverCDP lib (log_connecting this tr) (wsEndpoint this) (options this) = Inr b"
    and "debug this \<Longrightarrow> contexts lib (log_connected this (log_connecting this tr)) b = Inr n"
  shows "fst (start lib (this, tr)) = Inr b"
  using assms by (auto simp: start_def Let_def)

lemma start_debug_block_throws:
  assumes "startsWith (wsEndpoint this) ''ws://'' \<or> startsWith (wsEndpoint this) ''wss://''"
    and "connectOverCDP lib (log_connecting this tr) (wsEndpoint this) (options this) = Inr b"
    and "debug this"
    and "contexts lib (log_connected this (log_connecting this tr)) b = Inl e"
  shows "fst (start lib (this, tr)) = Inl (connection_error (wsEndpoint this) (error_message e))"
  using assms by (auto simp: start_def Let_def catch_connect_parts)

lemma start_rejected:
  assumes "startsWith (wsEndpoint this) ''ws://'' \<or> startsWith (wsEndpoint this) ''wss://''"
    and "connectOverCDP lib (log_connecting this tr) (wsEndpoint this) (options this) = Inl e"
  shows "fst (start lib (this, tr)) = Inl (connection_error (wsEndpoint this) (error_message e))"
    and "fst (snd (start lib (this, tr))) = this"
    and "connect_calls (snd (snd (start lib (this, tr)))) =
           connect_calls tr @ [CallConnectOverCDP (wsEndpoint this) (options this)]"
  using assms
  by (auto simp: start_def Let_def catch_connect_parts connect_calls_append
      connect_calls_log_connecting connect_calls_Nil connect_calls_Cons)

text \<open>When \<open>start\<close> returns, and what it returns.\<close>

lemma start_Inr_iff:
  "fst (start lib (this, tr)) = Inr b \<longleftrightarrow>
     (startsWith (wsEndpoint this) ''ws://'' \<or> startsWith (wsEndpoint this) ''wss://'') \<and>
     connectOverCDP lib (log_connecting this tr) (wsEndpoint this) (options this) = Inr b \<and>
     (debug this \<longrightarrow> (\<exists>n. contexts lib (log_connected this (log_connecting this tr)) b = Inr n))"
  by (auto simp: start_def Let_def catch_connect_parts split: sum.splits)

lemma close_provider: "fst (snd (close lib (this, tr))) = this"
  by (simp add: close_def Let_def split: option.splits)






text \<open>A configuration with a non-empty endpoint is accepted, whatever its scheme.\<close>

lemma constructor_accepts:
  assumes "cfg_wsEndpoint config = Some ep" and "ep \<noteq> []"
  shows "constructor (Some config) tr =
           (Inr \<lparr>wsEndpoint = ep, options = cfg_options config, session = None,
                 debug = (case cfg_debug config of None \<Rightarrow> False | Some b \<Rightarrow> b)\<rparr>, tr)"
  using assms by (simp add: constructor_def BrowserProvider_super_def)

text \<open>Unfolding the model and the concrete library on closed terms.\<close>

lemmas example_defs =
  example_lib_def flaky_lib_def example_provider_def example_endpoint_def example_config_def
  http_provider_def unreachable_provider_def unreachable_config_def
  example_state_1_def example_state_2_def

lemmas eval_defs =
  start_def close_def getSession_def log_connecting_def log_connected_def log_closing_def
  catch_connect_def startsWith_def
  connect_calls_Nil connect_calls_Cons close_calls_Nil close_calls_Cons
  connection_error_def format_error_def configuration_error_def Let_def

lemma close_with_session:
  assumes "session this = Some b"
  shows "fst (close lib (this, tr)) =
           (case browser_close lib (log_closing this tr) b of None \<Rightarrow> Inr () | Some e \<Rightarrow> Inl e)"
    and "close_calls (snd (snd (close lib (this, tr)))) = close_calls tr @ [CallClose b]"
  using assms
  by (auto simp: close_def Let_def close_calls_append close_calls_log_closing
      close_calls_Nil close_calls_Cons split: option.splits)

section \<open>The claims\<close>

text \<open>
  C1. When the endpoint has one of the two schemes, the library's connect call resolves
  to a browser \<open>b\<close> (the endpoint is reachable) and, for a provider with the debug flag
  on, the \<open>contexts()\<close> of the debug block does not throw, \<open>start\<close> returns \<open>b\<close>, the
  provider's \<open>session\<close> field holds \<open>b\<close> afterwards, and \<open>getSession\<close> on the
  provider then returns that same \<open>b\<close>. By \<open>start_Inr_iff\<close> the three hypotheses are
  exactly the condition under which \<open>start\<close> succeeds with \<open>b\<close>.
\<close>

theorem start_stores_and_returns_session:
  assumes "startsWith (wsEndpoint this) ''ws://'' \<or> startsWith (wsEndpoint this) ''wss://''"
    and "connectOverCDP lib (log_connecting this tr) (wsEndpoint this) (options this) = Inr b"
    and "debug this \<Longrightarrow> contexts lib (log_connected this (log_connecting this tr)) b = Inr n"
  shows "fst (start lib (this, tr)) = Inr b \<and>
         session (fst (snd (start lib (this, tr)))) = Some b \<and>
         getSession (fst (snd (start lib (this, tr)))) = Inr (Obj b)"
  using start_resolved [OF assms] start_connected(1) [OF assms(1,2)]
  by (simp add: getSession_def)

text \<open>
  The provider built by the constructor from the configuration of the example scripts,
  with the debug flag on, started against the example library: browser 100.
\<close>

theorem start_stores_and_returns_session_witness:
  "constructor (Some example_config) [] = (Inr example_provider, []) \<and>
   (startsWith (wsEndpoint example_provider) ''ws://'' \<or>
    startsWith (wsEndpoint example_provider) ''wss://'') \<and>
   connectOverCDP example_lib (log_connecting example_provider [])
     (wsEndpoint example_provider) (options example_provider) = Inr 100 \<and>
   debug example_provider \<and>
   contexts example_lib (log_connected example_provider (log_connecting example_provider [])) 100 =
     Inr 1 \<and>
   fst (start example_lib (example_provider, [])) = Inr 100 \<and>
   session (fst (snd (start example_lib (example_provider, [])))) = Some 100 \<and>
   getSession (fst (snd (start example_lib (example_provider, [])))) = Inr (Obj 100)"
proof -
  have c: "constructor (Some example_config) [] = (Inr example_provider, [])"
    by (simp add: constructor_def BrowserProvider_super_def example_defs)
  have v: "startsWith (wsEndpoint example_provider) ''ws://'' \<or>
           startsWith (wsEndpoint example_provider) ''wss://''"
    by (simp add: eval_defs example_defs)
  have r: "connectOverCDP example_lib (log_connecting example_provider [])
             (wsEndpoint example_provider) (options example_provider) = Inr 100"
    by (simp add: eval_defs example_defs)
  have d: "debug example_provider"
    by (simp add: example_defs)
  have n: "contexts example_lib
             (log_connected example_provider (log_connecting example_provider [])) 100 = Inr 1"
    by (simp add: example_lib_def)
  from start_stores_and_returns_session [OF v r n] c v r d n show ?thesis
    by blast
qed

text \<open>
  C2. When the endpoint has one of the two schemes, so that the connect call is made,
  and that call is rejected with \<open>e\<close>, where \<open>e\<close> is an \<open>Error\<close> whose message is
  \<open>cause\<close> or another value that \<open>String\<close> turns into \<open>cause\<close>, \<open>start\<close> throws an
  \<open>Error\<close> whose message is "Failed to connect to CDP WebSocket endpoint: ", the
  endpoint, ". " and \<open>cause\<close>. That message contains the endpoint and contains
  \<open>cause\<close>.
\<close>

theorem start_connection_error_message:
  assumes "startsWith (wsEndpoint this) ''ws://'' \<or> startsWith (wsEndpoint this) ''wss://''"
    and "connectOverCDP lib (log_connecting this tr) (wsEndpoint this) (options this) = Inl e"
    and "e = JsError cause \<or> e = JsOther cause"
  shows "fst (start lib (this, tr)) =
           Inl (JsError (''Failed to connect to CDP WebSocket endpoint: '' @ wsEndpoint this @
                         ''. '' @ cause)) \<and>
         includes_str (''Failed to connect to CDP WebSocket endpoint: '' @ wsEndpoint this @
                       ''. '' @ cause) (wsEndpoint this) \<and>
         includes_str (''Failed to connect to CDP WebSocket endpoint: '' @ wsEndpoint this @
                       ''. '' @ cause) cause"
proof -
  let ?p = "''Failed to connect to CDP WebSocket endpoint: ''"
  let ?msg = "?p @ wsEndpoint this @ ''. '' @ cause"
  from assms(3) have "error_message e = cause"
    by auto
  with start_rejected(1) [OF assms(1,2)] have "fst (start lib (this, tr)) = Inl (JsError ?msg)"
    by (simp add: connection_error_def)
  moreover have "includes_str ?msg (wsEndpoint this)"
    by (rule includes_str_middle)
  moreover have "includes_str ((?p @ wsEndpoint this @ ''. '') @ cause @ []) cause"
    by (rule includes_str_middle)
  then have "includes_str ?msg cause"
    by simp
  ultimately show ?thesis
    by blast
qed

text \<open>
  An endpoint nobody listens on. The example library refuses the connection with an
  \<open>Error\<close>, the second library rejects it with the string \<open>timeout\<close>; both causes
  end up in the message.
\<close>

theorem start_connection_error_message_witness:
  "(startsWith (wsEndpoint unreachable_provider) ''ws://'' \<or>
    startsWith (wsEndpoint unreachable_provider) ''wss://'') \<and>
   connectOverCDP example_lib (log_connecting unreachable_provider [])
     (wsEndpoint unreachable_provider) (options unreachable_provider) =
     Inl (JsError ''connect ECONNREFUSED'') \<and>
   fst (start example_lib (unreachable_provider, [])) =
     Inl (JsError (''Failed to connect to CDP WebSocket endpoint: '' @
                   wsEndpoint unreachable_provider @ ''. '' @ ''connect ECONNREFUSED'')) \<and>
   includes_str (''Failed to connect to CDP WebSocket endpoint: '' @
                 wsEndpoint unreachable_provider @ ''. '' @ ''connect ECONNREFUSED'')
     (wsEndpoint unreachable_provider) \<and>
   includes_str (''Failed to connect to CDP WebSocket endpoint: '' @
                 wsEndpoint unreachable_provider @ ''. '' @ ''connect ECONNREFUSED'')
     ''connect ECONNREFUSED'' \<and>
   ''Failed to connect to CDP WebSocket endpoint: '' @
     wsEndpoint unreachable_provider @ ''. '' @ ''connect ECONNREFUSED'' =
     ''Failed to connect to CDP WebSocket endpoint: wss://nowhere.invalid:9222. connect ECONNREFUSED'' \<and>
   connectOverCDP flaky_lib (log_connecting unreachable_provider [])
     (wsEndpoint unreachable_provider) (options unreachable_provider) =
     Inl (JsOther ''timeout'') \<and>
   fst (start flaky_lib (unreachable_provider, [])) =
     Inl (JsError (''Failed to connect to CDP WebSocket endpoint: '' @
                   wsEndpoint unreachable_provider @ ''. '' @ ''timeout'')) \<and>
   includes_str (''Failed to connect to CDP WebSocket endpoint: '' @
                 wsEndpoint unreachable_provider @ ''. '' @ ''timeout'')
     (wsEndpoint unreachable_provider) \<and>
   includes_str (''Failed to connect to CDP WebSocket endpoint: '' @
                 wsEndpoint unreachable_provider @ ''. '' @ ''timeout'')
     ''timeout'' \<and>
   ''Failed to connect to CDP WebSocket endpoint: '' @
     wsEndpoint unreachable_provider @ ''. '' @ ''timeout'' =
     ''Failed to connect to CDP WebSocket endpoint: wss://nowhere.invalid:9222. timeout''"
proof -
  have v: "startsWith (wsEndpoint unreachable_provider) ''ws://'' \<or>
           startsWith (wsEndpoint unreachable_provider) ''wss://''"
    by (simp add: eval_defs example_defs)
  have r1: "connectOverCDP example_lib (log_connecting unreachable_provider [])
              (wsEndpoint unreachable_provider) (options unreachable_provider) =
            Inl (JsError ''connect ECONNREFUSED'')"
    by (simp add: eval_defs example_defs)
  have r2: "connectOverCDP flaky_lib (log_connecting unreachable_provider [])
              (wsEndpoint unreachable_provider) (options unreachable_provider) =
            Inl (JsOther ''timeout'')"
    by (simp add: eval_defs example_defs)
  have k1: "JsError ''connect ECONNREFUSED'' = JsError ''connect ECONNREFUSED'' \<or>
            JsError ''connect ECONNREFUSED'' = JsOther ''connect ECONNREFUSED''"
    by simp
  have k2: "JsOther ''timeout'' = JsError ''timeout'' \<or> JsOther ''timeout'' = JsOther ''timeout''"
    by simp
  have m1: "''Failed to connect to CDP WebSocket endpoint: '' @
              wsEndpoint unreachable_provider @ ''. '' @ ''connect ECONNREFUSED'' =
            ''Failed to connect to CDP WebSocket endpoint: wss://nowhere.invalid:9222. connect ECONNREFUSED''"
    by (simp add: example_defs)
  have m2: "''Failed to connect to CDP WebSocket endpoint: '' @
              wsEndpoint unreachable_provider @ ''. '' @ ''timeout'' =
            ''Failed to connect to CDP WebSocket endpoint: wss://nowhere.invalid:9222. timeout''"
    by (simp add: example_defs)
  from start_connection_error_message [OF v r1 k1] start_connection_error_message [OF v r2 k2]
    v r1 r2 m1 m2
  show ?thesis
    by blast
qed

text \<open>
  C3. When the endpoint begins neither with \<open>ws://\<close> nor with \<open>wss://\<close>, \<open>start\<close>
  throws the format error and leaves the provider as it was. The trace holds no call
  of \<open>connectOverCDP\<close> that it did not hold before, and the whole outcome is the same
  for any two libraries: the library is not consulted.
\<close>

theorem start_format_error_before_connect:
  assumes "\<not> startsWith (wsEndpoint this) ''ws://''"
    and "\<not> startsWith (wsEndpoint this) ''wss://''"
  shows "fst (start lib (this, tr)) = Inl (format_error (wsEndpoint this)) \<and>
         fst (snd (start lib (this, tr))) = this \<and>
         connect_calls (snd (snd (start lib (this, tr)))) = connect_calls tr \<and>
         start lib (this, tr) = start lib' (this, tr)"
  by (simp add: start_format [OF assms] connect_calls_log_connecting)

text \<open>An \<open>http://\<close> endpoint: the constructor would accept it, \<open>start\<close> rejects it.\<close>

theorem start_format_error_before_connect_witness:
  "\<not> startsWith (wsEndpoint http_provider) ''ws://'' \<and>
   \<not> startsWith (wsEndpoint http_provider) ''wss://'' \<and>
   format_error (wsEndpoint http_provider) =
     JsError ''Invalid CDP WebSocket endpoint format: http://localhost:9222. Must start with ws:// or wss://'' \<and>
   fst (start example_lib (http_provider, [])) = Inl (format_error (wsEndpoint http_provider)) \<and>
   fst (snd (start example_lib (http_provider, []))) = http_provider \<and>
   connect_calls (snd (snd (start example_lib (http_provider, [])))) = connect_calls []"
proof -
  have a: "\<not> startsWith (wsEndpoint http_provider) ''ws://''"
    by (simp add: eval_defs example_defs)
  have b: "\<not> startsWith (wsEndpoint http_provider) ''wss://''"
    by (simp add: eval_defs example_defs)
  have m: "format_error (wsEndpoint http_provider) =
     JsError ''Invalid CDP WebSocket endpoint format: http://localhost:9222. Must start with ws:// or wss://''"
    by (simp add: eval_defs example_defs)
  from start_format_error_before_connect [OF a b, of example_lib "[]" example_lib] a b m
  show ?thesis by blast
qed

text \<open>
  C4. When the constructor is called with no argument, or with a configuration whose
  \<open>wsEndpoint\<close> is absent or the empty string, it throws the configuration error, and
  the trace of the outside world is the one it started with: no call of the library,
  no console output.
\<close>

theorem constructor_requires_endpoint:
  assumes "arg = None \<or>
           (\<exists>config. arg = Some config \<and>
              (cfg_wsEndpoint config = None \<or> cfg_wsEndpoint config = Some []))"
  shows "constructor arg tr = (Inl configuration_error, tr)"
  using assms
  by (auto simp: constructor_def Let_def BrowserProvider_super_def default_config_def)

text \<open>No argument, an absent endpoint, an empty endpoint.\<close>

theorem constructor_requires_endpoint_witness:
  "constructor None ([] :: unit event list) = (Inl configuration_error, []) \<and>
   constructor (Some \<lparr>cfg_wsEndpoint = None, cfg_options = None, cfg_debug = Some True\<rparr>)
     ([] :: unit event list) = (Inl configuration_error, []) \<and>
   constructor (Some \<lparr>cfg_wsEndpoint = Some [], cfg_options = Some (), cfg_debug = None\<rparr>)
     ([] :: unit event list) = (Inl configuration_error, [])"
  using constructor_requires_endpoint [of None "[] :: unit event list"]
    constructor_requires_endpoint
      [of "Some \<lparr>cfg_wsEndpoint = None, cfg_options = None, cfg_debug = Some True\<rparr>"
          "[] :: unit event list"]
    constructor_requires_endpoint
      [of "Some \<lparr>cfg_wsEndpoint = Some [], cfg_options = Some (), cfg_debug = None\<rparr>"
          "[] :: unit event list"]
  by simp

text \<open>
  C5, as stated, fails: \<open>close\<close> assigns no field. After a \<open>start\<close> that returned
  browser 100 and a \<open>close\<close> that returned, the provider still holds browser 100 and
  \<open>getSession\<close> still returns it.
\<close>

theorem close_clears_session_counterexample:
  "fst (start example_lib (example_provider, [])) = Inr 100 \<and>
   fst (close example_lib (snd (start example_lib (example_provider, [])))) = Inr () \<and>
   session (fst (snd (close example_lib (snd (start example_lib (example_provider, [])))))) = Some 100 \<and>
   getSession (fst (snd (close example_lib (snd (start example_lib (example_provider, [])))))) =
     Inr (Obj 100)"
  by (simp add: eval_defs example_defs)

text \<open>
  C5, amended. The session reference is written at connect time, by a successful
  \<open>start\<close>, and \<open>close\<close> does not clear it: after a \<open>start\<close> that returned \<open>b\<close>,
  \<open>close\<close> leaves every field of the provider as it was, so the provider still holds
  \<open>b\<close> and \<open>getSession\<close> still returns \<open>b\<close>; what \<open>close\<close> does is ask the library,
  once, to close \<open>b\<close>.
\<close>

theorem close_keeps_session:
  assumes "fst (start lib s) = Inr b"
  shows "session (fst (snd (start lib s))) = Some b \<and>
         fst (snd (close lib (snd (start lib s)))) = fst (snd (start lib s)) \<and>
         session (fst (snd (close lib (snd (start lib s))))) = Some b \<and>
         getSession (fst (snd (close lib (snd (start lib s))))) = Inr (Obj b) \<and>
         close_calls (snd (snd (close lib (snd (start lib s))))) =
           close_calls (snd (snd (start lib s))) @ [CallClose b]"
proof -
  obtain this tr where s: "s = (this, tr)" by (cases s)
  obtain this1 tr1 where s1: "snd (start lib s) = (this1, tr1)" by (cases "snd (start lib s)")
  from assms s have "startsWith (wsEndpoint this) ''ws://'' \<or> startsWith (wsEndpoint this) ''wss://''"
    and "connectOverCDP lib (log_connecting this tr) (wsEndpoint this) (options this) = Inr b"
    by (simp_all add: start_Inr_iff)
  then have "fst (snd (start lib (this, tr))) = this\<lparr>session := Some b\<rparr>"
    by (rule start_connected(1))
  with s s1 have b1: "session this1 = Some b" by simp
  have "fst (snd (close lib (this1, tr1))) = this1"
    by (rule close_provider)
  moreover have "close_calls (snd (snd (close lib (this1, tr1)))) = close_calls tr1 @ [CallClose b]"
    by (rule close_with_session(2) [OF b1])
  ultimately show ?thesis
    using b1 by (simp add: s1 getSession_def)
qed

text \<open>The run of the counterexample, through the theorem.\<close>

theorem close_keeps_session_witness:
  "fst (start example_lib (example_provider, [])) = Inr 100 \<and>
   session (fst (snd (start example_lib (example_provider, [])))) = Some 100 \<and>
   fst (snd (close example_lib (snd (start example_lib (example_provider, []))))) =
     fst (snd (start example_lib (example_provider, []))) \<and>
   session (fst (snd (close example_lib (snd (start example_lib (example_provider, [])))))) = Some 100 \<and>
   getSession (fst (snd (close example_lib (snd (start example_lib (example_provider, [])))))) =
     Inr (Obj 100) \<and>
   close_calls (snd (snd (close example_lib (snd (start example_lib (example_provider, [])))))) =
     close_calls (snd (snd (start example_lib (example_provider, [])))) @ [CallClose 100]"
proof -
  have a: "fst (start example_lib (example_provider, [])) = Inr 100"
    by (simp add: eval_defs example_defs)
  from close_keeps_session [OF a] a show ?thesis
    by blast
qed






text \<open>
  C8. For every provider, \<open>getSession\<close> returns and does not throw: it returns the
  stored browser when \<open>session\<close> holds one and \<open>null\<close> when it holds none.
\<close>

theorem getSession_never_throws:
  "getSession this = Inr (case session this of None \<Rightarrow> Null | Some b \<Rightarrow> Obj b)"
  by (simp add: getSession_def split: option.splits)

text \<open>
  C9. When a session \<open>b\<close> is stored and the library's close of \<open>b\<close> is rejected with
  \<open>e\<close>, \<open>close\<close> throws that same \<open>e\<close>; the provider is unchanged and the trace
  records the one call of the library's close.
\<close>

theorem close_propagates_library_failure:
  assumes "session this = Some b"
    and "browser_close lib (log_closing this tr) b = Some e"
  shows "fst (close lib (this, tr)) = Inl e \<and>
         fst (snd (close lib (this, tr))) = this \<and>
         close_calls (snd (snd (close lib (this, tr)))) = close_calls tr @ [CallClose b]"
  using close_with_session [OF assms(1), of lib tr] assms(2) by (simp add: close_provider)

text \<open>After two calls of \<open>start\<close> the session is browser 101, whose close fails.\<close>

theorem close_propagates_library_failure_witness:
  "session (fst example_state_2) = Some 101 \<and>
   browser_close example_lib (log_closing (fst example_state_2) (snd example_state_2)) 101 =
     Some (JsError ''Target closed'') \<and>
   fst (close example_lib (fst example_state_2, snd example_state_2)) =
     Inl (JsError ''Target closed'') \<and>
   fst (snd (close example_lib (fst example_state_2, snd example_state_2))) = fst example_state_2 \<and>
   close_calls (snd (snd (close example_lib (fst example_state_2, snd example_state_2)))) =
     close_calls (snd example_state_2) @ [CallClose 101]"
proof -
  have s: "session (fst example_state_2) = Some 101"
    by (simp add: eval_defs example_defs)
  have f: "browser_close example_lib (log_closing (fst example_state_2) (snd example_state_2)) 101 =
             Some (JsError ''Target closed'')"
    by (simp add: example_lib_def)
  from close_propagates_library_failure [OF s f] s f show ?thesis
    by blast
qed

text \<open>
  C10. When the library rejects the connect call of a \<open>start\<close>, that \<open>start\<close> throws
  and every field of the provider, \<open>session\<close> among them, is what it was before the
  call: a session stored by an earlier \<open>start\<close> survives.
\<close>

theorem failed_connect_keeps_session:
  assumes "connectOverCDP lib (log_connecting this tr) (wsEndpoint this) (options this) = Inl e"
  shows "(\<exists>e'. fst (start lib (this, tr)) = Inl e') \<and>
         fst (snd (start lib (this, tr))) = this \<and>
         session (fst (snd (start lib (this, tr)))) = session this"
  using assms by (simp add: start_def Let_def catch_connect_parts)

text \<open>
  After two successful calls the example library refuses a third connection; the
  session stays browser 101.
\<close>

theorem failed_connect_keeps_session_witness:
  "session (fst example_state_2) = Some 101 \<and>
   connectOverCDP example_lib (log_connecting (fst example_state_2) (snd example_state_2))
     (wsEndpoint (fst example_state_2)) (options (fst example_state_2)) =
     Inl (JsError ''connect ECONNREFUSED'') \<and>
   (\<exists>e'. fst (start example_lib (fst example_state_2, snd example_state_2)) = Inl e') \<and>
   fst (snd (start example_lib (fst example_state_2, snd example_state_2))) = fst example_state_2 \<and>
   session (fst (snd (start example_lib (fst example_state_2, snd example_state_2)))) = Some 101"
proof -
  have s: "session (fst example_state_2) = Some 101"
    by (simp add: eval_defs example_defs)
  have r: "connectOverCDP example_lib (log_connecting (fst example_state_2) (snd example_state_2))
             (wsEndpoint (fst example_state_2)) (options (fst example_state_2)) =
           Inl (JsError ''connect ECONNREFUSED'')"
    by (simp add: eval_defs example_defs)
  from failed_connect_keeps_session [OF r] s r show ?thesis
    by simp
qed

end
